theory Spec2Isabelle
  imports Main "HOL-Library.Multiset"
begin

section \<open>JavaScript values and strings\<close>

text \<open>
  The log store (\<^verbatim>\<open>class LogStore\<close>) keeps a map from generated ids to log entries, trims
  it to \<^verbatim>\<open>MAX_LOGS\<close> entries after every insertion and writes the whole map as JSON text
  into the cookie \<^verbatim>\<open>eventLogs\<close>.

  Strings are sequences of code units below 256. Numbers are the integers that a
  JavaScript number holds exactly and prints in decimal digits (durations in milliseconds,
  status codes, \<^verbatim>\<open>Date.now()\<close>). The \<^verbatim>\<open>details\<close> payload has the type
  \<^verbatim>\<open>Record<string, any>\<close>: it is a JavaScript value, and an object is the list of its own
  enumerable properties in enumeration order. \<open>JCircular\<close> is the object built by
  \<^verbatim>\<open>const c = {}; c.self = c\<close>, \<open>JBigInt\<close> a BigInt value.
\<close>

datatype error = TypeError | SyntaxError

datatype jsval =
    JUndefined
  | JNull
  | JBool bool
  | JNum int
  | JBigInt int
  | JStr string
  | JArr "jsval list"
  | JObj "(string \<times> jsval) list"
  | JCircular

subsection \<open>Number to string\<close>

text \<open>The decimal digits of a non-negative integer, and \<^verbatim>\<open>String(n)\<close> for an integer.\<close>

function digits :: "int \<Rightarrow> string" where
  "digits n = (if n < 10 then [char_of (48 + n)]
               else digits (n div 10) @ [char_of (48 + n mod 10)])"
  by pat_completeness auto
termination
  by (relation "measure nat") auto

declare digits.simps [simp del]

definition Number_toString :: "int \<Rightarrow> string" where
  "Number_toString i = (if i < 0 then CHR ''-'' # digits (- i) else digits i)"

subsection \<open>String methods\<close>

definition toLowerCase_unit :: "char \<Rightarrow> char" where
  "toLowerCase_unit c =
     (let n = (of_char c :: nat) in
      if (65 \<le> n \<and> n \<le> 90) \<or> (192 \<le> n \<and> n \<le> 214) \<or> (216 \<le> n \<and> n \<le> 222)
      then char_of (n + 32) else c)"

definition toLowerCase :: "string \<Rightarrow> string" where
  "toLowerCase s = map toLowerCase_unit s"

fun startsWith :: "string \<Rightarrow> string \<Rightarrow> bool" where
  "startsWith s [] = True"
| "startsWith [] (q # qs) = False"
| "startsWith (c # cs) (q # qs) = (c = q \<and> startsWith cs qs)"

fun String_includes :: "string \<Rightarrow> string \<Rightarrow> bool" where
  "String_includes [] q = (q = [])"
| "String_includes (c # cs) q = (startsWith (c # cs) q \<or> String_includes cs q)"

subsection \<open>Objects as property lists\<close>

text \<open>
  Assigning a property keeps the position of a key that is already there and appends a
  new key. This is what \<^verbatim>\<open>{...o, [key]: value}\<close> does, which is how the store's
  \<^verbatim>\<open>setKey\<close> and the object literals of the helpers build their objects.
\<close>

fun setKey :: "('k \<times> 'v) list \<Rightarrow> 'k \<Rightarrow> 'v \<Rightarrow> ('k \<times> 'v) list" where
  "setKey [] k v = [(k, v)]"
| "setKey ((k', v') # ps) k v = (if k' = k then (k, v) # ps else (k', v') # setKey ps k v)"

definition Object_fromEntries :: "('k \<times> 'v) list \<Rightarrow> ('k \<times> 'v) list" where
  "Object_fromEntries es = foldl (\<lambda>ps (k, v). setKey ps k v) [] es"

definition Object_entries :: "('k \<times> 'v) list \<Rightarrow> ('k \<times> 'v) list" where
  "Object_entries ps = ps"

definition Object_values :: "('k \<times> 'v) list \<Rightarrow> 'v list" where
  "Object_values ps = map snd ps"

text \<open>The own enumerable properties that a spread \<^verbatim>\<open>{...v}\<close> copies.\<close>

fun ownProps :: "jsval \<Rightarrow> (string \<times> jsval) list" where
  "ownProps (JObj ps) = ps"
| "ownProps (JArr xs) = zip (map (\<lambda>i. Number_toString (int i)) [0..<length xs]) xs"
| "ownProps (JStr s) = zip (map (\<lambda>i. Number_toString (int i)) [0..<length s]) (map (\<lambda>c. JStr [c]) s)"
| "ownProps JCircular = [(''self'', JCircular)]"
| "ownProps v = []"

definition objectLiteral :: "(string \<times> jsval) list \<Rightarrow> (string \<times> jsval) list \<Rightarrow> jsval" where
  "objectLiteral spread props = JObj (foldl (\<lambda>ps (k, v). setKey ps k v) spread props)"

subsection \<open>Arrays\<close>

text \<open>
  \<^verbatim>\<open>Array.prototype.sort\<close> with a comparator is a stable sort: an element goes before the
  first element that the comparator does not put before it.
\<close>

fun insert_cmp :: "('a \<Rightarrow> 'a \<Rightarrow> int) \<Rightarrow> 'a \<Rightarrow> 'a list \<Rightarrow> 'a list" where
  "insert_cmp cmp x [] = [x]"
| "insert_cmp cmp x (y # ys) = (if cmp x y \<le> 0 then x # y # ys else y # insert_cmp cmp x ys)"

definition Array_sort :: "('a \<Rightarrow> 'a \<Rightarrow> int) \<Rightarrow> 'a list \<Rightarrow> 'a list" where
  "Array_sort cmp xs = foldr (insert_cmp cmp) xs []"

text \<open>\<^verbatim>\<open>Array.prototype.filter\<close> with a callback that may throw.\<close>

fun Array_filter :: "('a \<Rightarrow> error + bool) \<Rightarrow> 'a list \<Rightarrow> error + 'a list" where
  "Array_filter p [] = Inr []"
| "Array_filter p (x # xs) =
     (case p x of
        Inl e \<Rightarrow> Inl e
      | Inr b \<Rightarrow> (case Array_filter p xs of
                    Inl e \<Rightarrow> Inl e
                  | Inr ys \<Rightarrow> Inr (if b then x # ys else ys)))"

section \<open>JSON.stringify\<close>

definition hexdigit :: "int \<Rightarrow> char" where
  "hexdigit d = (if d < 10 then char_of (48 + d) else char_of (87 + d))"

definition escape_unit :: "char \<Rightarrow> string" where
  "escape_unit c =
     (let n = (of_char c :: int) in
      if n = 8 then [CHR 0x5C, CHR ''b'']
      else if n = 9 then [CHR 0x5C, CHR ''t'']
      else if n = 10 then [CHR 0x5C, CHR ''n'']
      else if n = 12 then [CHR 0x5C, CHR ''f'']
      else if n = 13 then [CHR 0x5C, CHR ''r'']
      else if n = 34 then [CHR 0x5C, CHR 0x22]
      else if n = 92 then [CHR 0x5C, CHR 0x5C]
      else if n < 32 then [CHR 0x5C, CHR ''u'', CHR ''0'', CHR ''0'',
                           hexdigit (n div 16), hexdigit (n mod 16)]
      else [c])"

definition QuoteJSONString :: "string \<Rightarrow> string" where
  "QuoteJSONString s = CHR 0x22 # concat (map escape_unit s) @ [CHR 0x22]"

fun join_comma :: "string list \<Rightarrow> string" where
  "join_comma [] = []"
| "join_comma [p] = p"
| "join_comma (p # q # ps) = p @ CHR '','' # join_comma (q # ps)"

text \<open>
  \<open>SerializeJSONProperty\<close> returns \<open>None\<close> for \<^verbatim>\<open>undefined\<close>: a property with that value
  is left out of an object and written \<^verbatim>\<open>null\<close> in an array. A BigInt and an object that
  is already being serialised (a circular structure) throw a TypeError.
\<close>

fun SerializeJSONProperty :: "jsval \<Rightarrow> error + string option"
  and SerializeJSONArray :: "jsval list \<Rightarrow> error + string list"
  and SerializeJSONObject :: "(string \<times> jsval) list \<Rightarrow> error + string list"
where
  "SerializeJSONProperty JUndefined = Inr None"
| "SerializeJSONProperty JNull = Inr (Some ''null'')"
| "SerializeJSONProperty (JBool b) = Inr (Some (if b then ''true'' else ''false''))"
| "SerializeJSONProperty (JNum n) = Inr (Some (Number_toString n))"
| "SerializeJSONProperty (JBigInt n) = Inl TypeError"
| "SerializeJSONProperty (JStr s) = Inr (Some (QuoteJSONString s))"
| "SerializeJSONProperty (JArr xs) =
     (case SerializeJSONArray xs of
        Inl e \<Rightarrow> Inl e
      | Inr ps \<Rightarrow> Inr (Some (''['' @ join_comma ps @ '']'')))"
| "SerializeJSONProperty (JObj kvs) =
     (case SerializeJSONObject kvs of
        Inl e \<Rightarrow> Inl e
      | Inr ps \<Rightarrow> Inr (Some (''{'' @ join_comma ps @ ''}'')))"
| "SerializeJSONProperty JCircular = Inl TypeError"
| "SerializeJSONArray [] = Inr []"
| "SerializeJSONArray (x # xs) =
     (case SerializeJSONProperty x of
        Inl e \<Rightarrow> Inl e
      | Inr r \<Rightarrow> (case SerializeJSONArray xs of
                    Inl e \<Rightarrow> Inl e
                  | Inr ps \<Rightarrow> Inr ((case r of None \<Rightarrow> ''null'' | Some t \<Rightarrow> t) # ps)))"
| "SerializeJSONObject [] = Inr []"
| "SerializeJSONObject ((k, v) # kvs) =
     (case SerializeJSONProperty v of
        Inl e \<Rightarrow> Inl e
      | Inr r \<Rightarrow> (case SerializeJSONObject kvs of
                    Inl e \<Rightarrow> Inl e
                  | Inr ps \<Rightarrow> Inr (case r of
                                    None \<Rightarrow> ps
                                  | Some t \<Rightarrow> (QuoteJSONString k @ CHR '':'' # t) # ps)))"

definition JSON_stringify :: "jsval \<Rightarrow> error + string option" where
  "JSON_stringify v = SerializeJSONProperty v"

section \<open>JSON.parse\<close>

text \<open>
  The JSON grammar with its white space, on strings of code units below 256 and integer
  numbers: a number with a fraction or an exponent and an escape \<^verbatim>\<open>\uXXXX\<close> above
  \<^verbatim>\<open>\u00FF\<close> are not read. \<open>None\<close> is a SyntaxError. The first argument of the three
  mutually recursive functions bounds the number of nested calls; \<open>JSON_parse\<close> starts
  with more than the length of the text.
\<close>

definition is_ws :: "char \<Rightarrow> bool" where
  "is_ws c = (c = CHR 0x20 \<or> c = CHR 0x09 \<or> c = CHR 0x0A \<or> c = CHR 0x0D)"

fun skip_ws :: "string \<Rightarrow> string" where
  "skip_ws [] = []"
| "skip_ws (c # cs) = (if is_ws c then skip_ws cs else c # cs)"

definition is_digit :: "char \<Rightarrow> bool" where
  "is_digit c = (48 \<le> (of_char c :: int) \<and> (of_char c :: int) \<le> 57)"

fun parse_digits :: "int \<Rightarrow> string \<Rightarrow> int \<times> string" where
  "parse_digits acc [] = (acc, [])"
| "parse_digits acc (c # cs) =
     (if is_digit c then parse_digits (acc * 10 + (of_char c - 48)) cs else (acc, c # cs))"

definition after_int :: "int \<Rightarrow> string \<Rightarrow> (int \<times> string) option" where
  "after_int n r =
     (case r of
        [] \<Rightarrow> Some (n, [])
      | d # r' \<Rightarrow>
          if is_digit d \<or> d = CHR ''.'' \<or> d = CHR ''e'' \<or> d = CHR ''E'' then None
          else Some (n, r))"

definition parse_unsigned :: "string \<Rightarrow> (int \<times> string) option" where
  "parse_unsigned cs =
     (case cs of
        [] \<Rightarrow> None
      | c # r \<Rightarrow>
          if c = CHR ''0'' then after_int 0 r
          else if is_digit c then (case parse_digits 0 cs of (n, r') \<Rightarrow> after_int n r')
          else None)"

definition parse_number :: "string \<Rightarrow> (int \<times> string) option" where
  "parse_number cs =
     (case cs of
        [] \<Rightarrow> None
      | c # r \<Rightarrow>
          if c = CHR ''-'' then map_option (apfst uminus) (parse_unsigned r)
          else parse_unsigned cs)"

definition hexval :: "char \<Rightarrow> int option" where
  "hexval c =
     (let n = (of_char c :: int) in
      if 48 \<le> n \<and> n \<le> 57 then Some (n - 48)
      else if 97 \<le> n \<and> n \<le> 102 then Some (n - 87)
      else if 65 \<le> n \<and> n \<le> 70 then Some (n - 55)
      else None)"

definition hex4 :: "char \<Rightarrow> char \<Rightarrow> char \<Rightarrow> char \<Rightarrow> char option" where
  "hex4 a b c d =
     (case (hexval a, hexval b, hexval c, hexval d) of
        (Some x, Some y, Some z, Some w) \<Rightarrow>
          if x = 0 \<and> y = 0 then Some (char_of (z * 16 + w)) else None
      | _ \<Rightarrow> None)"

definition unescape :: "char \<Rightarrow> char option" where
  "unescape e =
     (if e = CHR 0x22 then Some (CHR 0x22)
      else if e = CHR 0x5C then Some (CHR 0x5C)
      else if e = CHR ''/'' then Some (CHR ''/'')
      else if e = CHR ''b'' then Some (CHR 0x08)
      else if e = CHR ''f'' then Some (CHR 0x0C)
      else if e = CHR ''n'' then Some (CHR 0x0A)
      else if e = CHR ''r'' then Some (CHR 0x0D)
      else if e = CHR ''t'' then Some (CHR 0x09)
      else None)"

text \<open>The characters of a string literal, after the opening quotation mark.\<close>

fun parse_chars :: "string \<Rightarrow> (string \<times> string) option" where
  "parse_chars [] = None"
| "parse_chars (c # cs) =
     (if c = CHR 0x22 then Some ([], cs)
      else if c = CHR 0x5C then
        (case cs of
           [] \<Rightarrow> None
         | e # cs1 \<Rightarrow>
             if e = CHR ''u'' then
               (case cs1 of
                  h1 # h2 # h3 # h4 # cs2 \<Rightarrow>
                    (case hex4 h1 h2 h3 h4 of
                       None \<Rightarrow> None
                     | Some u \<Rightarrow> map_option (apfst ((#) u)) (parse_chars cs2))
                | _ \<Rightarrow> None)
             else
               (case unescape e of
                  None \<Rightarrow> None
                | Some u \<Rightarrow> map_option (apfst ((#) u)) (parse_chars cs1)))
      else if (of_char c :: int) < 32 then None
      else map_option (apfst ((#) c)) (parse_chars cs))"

definition keyword :: "string \<Rightarrow> jsval \<Rightarrow> string \<Rightarrow> (jsval \<times> string) option" where
  "keyword kw v cs = (if startsWith cs kw then Some (v, drop (length kw) cs) else None)"

fun parse_value :: "nat \<Rightarrow> string \<Rightarrow> (jsval \<times> string) option"
  and parse_elements :: "nat \<Rightarrow> string \<Rightarrow> (jsval list \<times> string) option"
  and parse_members :: "nat \<Rightarrow> string \<Rightarrow> ((string \<times> jsval) list \<times> string) option"
where
  "parse_value 0 cs = None"
| "parse_value (Suc n) cs =
     (case skip_ws cs of
        [] \<Rightarrow> None
      | c # r \<Rightarrow>
          if c = CHR ''{'' then
            (case skip_ws r of
               [] \<Rightarrow> None
             | d # r' \<Rightarrow>
                 if d = CHR ''}'' then Some (JObj [], r')
                 else map_option (apfst (\<lambda>kvs. JObj (Object_fromEntries kvs)))
                        (parse_members n (d # r')))
          else if c = CHR ''['' then
            (case skip_ws r of
               [] \<Rightarrow> None
             | d # r' \<Rightarrow>
                 if d = CHR '']'' then Some (JArr [], r')
                 else map_option (apfst JArr) (parse_elements n (d # r')))
          else if c = CHR 0x22 then map_option (apfst JStr) (parse_chars r)
          else if c = CHR ''t'' then keyword ''true'' (JBool True) (c # r)
          else if c = CHR ''f'' then keyword ''false'' (JBool False) (c # r)
          else if c = CHR ''n'' then keyword ''null'' JNull (c # r)
          else map_option (apfst JNum) (parse_number (c # r)))"
| "parse_elements 0 cs = None"
| "parse_elements (Suc n) cs =
     (case parse_value n cs of
        None \<Rightarrow> None
      | Some (v, r) \<Rightarrow>
          (case skip_ws r of
             [] \<Rightarrow> None
           | d # r' \<Rightarrow>
               if d = CHR '','' then map_option (apfst ((#) v)) (parse_elements n r')
               else if d = CHR '']'' then Some ([v], r')
               else None))"
| "parse_members 0 cs = None"
| "parse_members (Suc n) cs =
     (case skip_ws cs of
        [] \<Rightarrow> None
      | q # r \<Rightarrow>
          if q = CHR 0x22 then
            (case parse_chars r of
               None \<Rightarrow> None
             | Some (k, r1) \<Rightarrow>
                 (case skip_ws r1 of
                    [] \<Rightarrow> None
                  | col # r2 \<Rightarrow>
                      if col = CHR '':'' then
                        (case parse_value n r2 of
                           None \<Rightarrow> None
                         | Some (v, r3) \<Rightarrow>
                             (case skip_ws r3 of
                                [] \<Rightarrow> None
                              | d # r4 \<Rightarrow>
                                  if d = CHR '','' then
                                    map_option (apfst ((#) (k, v))) (parse_members n r4)
                                  else if d = CHR ''}'' then Some ([(k, v)], r4)
                                  else None))
                      else None))
          else None)"

definition JSON_parse :: "string \<Rightarrow> error + jsval" where
  "JSON_parse t =
     (case parse_value (Suc (length t)) t of
        None \<Rightarrow> Inl SyntaxError
      | Some (v, r) \<Rightarrow> (case skip_ws r of [] \<Rightarrow> Inr v | c # r' \<Rightarrow> Inl SyntaxError))"


section \<open>The log store\<close>

datatype level = LInfo | LWarning | LError | LDebug

datatype category = CSystem | CProvider | CUser | CError | CApi | CAuth | CDatabase | CNetwork

record LogEntry =
  entry_id :: string
  timestamp :: string
  level :: level
  message :: string
  details :: jsval
  category :: category
  subCategory :: "string option"
  duration :: "int option"
  statusCode :: "int option"

definition MAX_LOGS :: nat where
  "MAX_LOGS = 1000"

text \<open>
  The state of a \<^verbatim>\<open>LogStore\<close>: the map \<^verbatim>\<open>_logs\<close> (ids to entries, in the order of the
  object's keys), the atom \<^verbatim>\<open>showLogs\<close>, the value of the cookie \<^verbatim>\<open>eventLogs\<close> and the
  messages given to \<^verbatim>\<open>logger.error\<close>.
\<close>

record LogStore =
  logs :: "(string \<times> LogEntry) list"
  showLogs :: bool
  cookie :: "string option"
  diagnostics :: "string list"

text \<open>
  What one call of \<^verbatim>\<open>addLog\<close> reads from its environment: \<^verbatim>\<open>Date.now()\<close>, the string
  \<^verbatim>\<open>Math.random().toString(36).substr(2, 9)\<close> and \<^verbatim>\<open>new Date().toISOString()\<close>.
\<close>

record env =
  dateNow :: int
  random36 :: string
  isoNow :: string

fun level_str :: "level \<Rightarrow> string" where
  "level_str LInfo = ''info''"
| "level_str LWarning = ''warning''"
| "level_str LError = ''error''"
| "level_str LDebug = ''debug''"

fun category_str :: "category \<Rightarrow> string" where
  "category_str CSystem = ''system''"
| "category_str CProvider = ''provider''"
| "category_str CUser = ''user''"
| "category_str CError = ''error''"
| "category_str CApi = ''api''"
| "category_str CAuth = ''auth''"
| "category_str CDatabase = ''database''"
| "category_str CNetwork = ''network''"

text \<open>
  An entry as the JavaScript object that \<^verbatim>\<open>JSON.stringify\<close> sees: the keys of the literal
  in \<^verbatim>\<open>addLog\<close>, in its order, then the optional fields that are set.
\<close>

fun optProp :: "string \<Rightarrow> jsval option \<Rightarrow> (string \<times> jsval) list" where
  "optProp k None = []"
| "optProp k (Some v) = [(k, v)]"

definition LogEntry_val :: "LogEntry \<Rightarrow> jsval" where
  "LogEntry_val e = JObj ([(''id'', JStr (entry_id e)),
       (''timestamp'', JStr (timestamp e)),
       (''level'', JStr (level_str (level e))),
       (''message'', JStr (message e)),
       (''details'', details e),
       (''category'', JStr (category_str (category e)))]
       @ optProp ''subCategory'' (map_option JStr (subCategory e))
       @ optProp ''duration'' (map_option JNum (duration e))
       @ optProp ''statusCode'' (map_option JNum (statusCode e)))"

definition logs_val :: "(string \<times> LogEntry) list \<Rightarrow> jsval" where
  "logs_val m = JObj (map (\<lambda>(k, e). (k, LogEntry_val e)) m)"

text \<open>
  \<^verbatim>\<open>_saveLogs\<close>: \<^verbatim>\<open>Cookies.set('eventLogs', JSON.stringify(currentLogs))\<close>. When
  \<^verbatim>\<open>JSON.stringify\<close> throws, the cookie is not written; otherwise its result, a text since
  the map is an object, becomes the value of the cookie. The cookie jar keeps the value as
  it is given.
\<close>

definition saveLogs :: "LogStore \<Rightarrow> (error + unit) \<times> LogStore" where
  "saveLogs s =
     (case JSON_stringify (logs_val (logs s)) of
        Inl e \<Rightarrow> (Inl e, s)
      | Inr t \<Rightarrow> (Inr (), s\<lparr>cookie := t\<rparr>))"

definition generateId :: "env \<Rightarrow> string" where
  "generateId en = Number_toString (dateNow en) @ ''-'' @ random36 en"

text \<open>
  The comparator of \<^verbatim>\<open>_trimLogs\<close> and \<^verbatim>\<open>getLogs\<close>. \<open>getTime\<close> stands for
  \<^verbatim>\<open>s => new Date(s).getTime()\<close> on the timestamps of the store, which \<^verbatim>\<open>toISOString\<close>
  wrote: the time value of such a string is an integer number of milliseconds.
\<close>

definition byTimestampDesc :: "(string \<Rightarrow> int) \<Rightarrow> LogEntry \<Rightarrow> LogEntry \<Rightarrow> int" where
  "byTimestampDesc getTime a b = getTime (timestamp b) - getTime (timestamp a)"

definition trimLogs :: "(string \<Rightarrow> int) \<Rightarrow> LogStore \<Rightarrow> LogStore" where
  "trimLogs getTime s =
     (let currentLogs = Object_entries (logs s) in
      if length currentLogs > MAX_LOGS then
        (let sortedLogs = Array_sort (\<lambda>a b. byTimestampDesc getTime (snd a) (snd b)) currentLogs;
             newLogs = Object_fromEntries (take MAX_LOGS sortedLogs)
         in s\<lparr>logs := newLogs\<rparr>)
      else s)"

definition newEntry :: "env \<Rightarrow> string \<Rightarrow> level \<Rightarrow> category \<Rightarrow> jsval \<Rightarrow> LogEntry" where
  "newEntry en msg lvl cat det =
     \<lparr>entry_id = generateId en, timestamp = isoNow en, level = lvl, message = msg,
      details = det, category = cat, subCategory = None, duration = None, statusCode = None\<rparr>"

text \<open>
  \<^verbatim>\<open>addLog\<close>: the entry is in the map and the map is trimmed before \<^verbatim>\<open>_saveLogs\<close> runs, so
  both changes stay when \<^verbatim>\<open>_saveLogs\<close> throws.
\<close>

definition addLog ::
  "(string \<Rightarrow> int) \<Rightarrow> env \<Rightarrow> string \<Rightarrow> level \<Rightarrow> category \<Rightarrow> jsval \<Rightarrow> LogStore
     \<Rightarrow> (error + string) \<times> LogStore" where
  "addLog getTime en msg lvl cat det s =
     (let entry = newEntry en msg lvl cat det;
          s1 = s\<lparr>logs := setKey (logs s) (entry_id entry) entry\<rparr>;
          s2 = trimLogs getTime s1
      in case saveLogs s2 of
           (Inl e, s3) \<Rightarrow> (Inl e, s3)
         | (Inr u, s3) \<Rightarrow> (Inr (entry_id entry), s3))"

definition logSystem ::
  "(string \<Rightarrow> int) \<Rightarrow> env \<Rightarrow> string \<Rightarrow> jsval \<Rightarrow> LogStore \<Rightarrow> (error + string) \<times> LogStore" where
  "logSystem getTime en msg det s = addLog getTime en msg LInfo CSystem det s"

text \<open>
  \<^verbatim>\<open>logAPIRequest\<close> and \<^verbatim>\<open>logDatabase\<close>. \<open>ts\<close> is the \<^verbatim>\<open>new Date().toISOString()\<close> of the
  details literal, read before \<^verbatim>\<open>addLog\<close> runs.
\<close>

definition apiMessage :: "string \<Rightarrow> string \<Rightarrow> int \<Rightarrow> int \<Rightarrow> string" where
  "apiMessage endpoint method dur sc =
     method @ '' '' @ endpoint @ '' - '' @ Number_toString sc @ '' ('' @ Number_toString dur @ ''ms)''"

definition apiLevel :: "int \<Rightarrow> level" where
  "apiLevel sc = (if sc \<ge> 400 then LError else if sc \<ge> 300 then LWarning else LInfo)"

definition apiDetails :: "string \<Rightarrow> string \<Rightarrow> string \<Rightarrow> int \<Rightarrow> int \<Rightarrow> jsval \<Rightarrow> jsval" where
  "apiDetails ts endpoint method dur sc det =
     objectLiteral (ownProps det)
       [(''endpoint'', JStr endpoint), (''method'', JStr method), (''duration'', JNum dur),
        (''statusCode'', JNum sc), (''timestamp'', JStr ts)]"

definition logAPIRequest ::
  "(string \<Rightarrow> int) \<Rightarrow> string \<Rightarrow> env \<Rightarrow> string \<Rightarrow> string \<Rightarrow> int \<Rightarrow> int \<Rightarrow> jsval \<Rightarrow> LogStore
     \<Rightarrow> (error + string) \<times> LogStore" where
  "logAPIRequest getTime ts en endpoint method dur sc det s =
     (let msg = apiMessage endpoint method dur sc;
          lvl = apiLevel sc
      in addLog getTime en msg lvl CApi (apiDetails ts endpoint method dur sc det) s)"

definition dbMessage :: "string \<Rightarrow> bool \<Rightarrow> int \<Rightarrow> string" where
  "dbMessage operation success dur =
     ''DB '' @ operation @ '' - '' @ (if success then ''Success'' else ''Failed'')
       @ '' ('' @ Number_toString dur @ ''ms)''"

definition dbDetails :: "string \<Rightarrow> string \<Rightarrow> bool \<Rightarrow> int \<Rightarrow> jsval \<Rightarrow> jsval" where
  "dbDetails ts operation success dur det =
     objectLiteral (ownProps det)
       [(''operation'', JStr operation), (''success'', JBool success), (''duration'', JNum dur),
        (''timestamp'', JStr ts)]"

definition logDatabase ::
  "(string \<Rightarrow> int) \<Rightarrow> string \<Rightarrow> env \<Rightarrow> string \<Rightarrow> bool \<Rightarrow> int \<Rightarrow> jsval \<Rightarrow> LogStore
     \<Rightarrow> (error + string) \<times> LogStore" where
  "logDatabase getTime ts en operation success dur det s =
     (let msg = dbMessage operation success dur;
          lvl = (if success then LInfo else LError)
      in addLog getTime en msg lvl CDatabase (dbDetails ts operation success dur det) s)"

definition clearLogs :: "LogStore \<Rightarrow> (error + unit) \<times> LogStore" where
  "clearLogs s = saveLogs (s\<lparr>logs := []\<rparr>)"

definition getLogs :: "(string \<Rightarrow> int) \<Rightarrow> LogStore \<Rightarrow> LogEntry list \<times> LogStore" where
  "getLogs getTime s = (Array_sort (byTimestampDesc getTime) (Object_values (logs s)), s)"

text \<open>
  The callback of \<^verbatim>\<open>getFilteredLogs\<close>. \<^verbatim>\<open>!level\<close>, \<^verbatim>\<open>!category\<close> hold for an argument left
  out, \<^verbatim>\<open>!searchQuery\<close> also for the empty string. \<^verbatim>\<open>matchesSearch\<close> is computed for every
  entry, whatever the other two are; \<^verbatim>\<open>JSON.stringify\<close> of \<^verbatim>\<open>undefined\<close> is \<^verbatim>\<open>undefined\<close>, and
  \<^verbatim>\<open>toLowerCase\<close> of that throws a TypeError.
\<close>

definition matchesSearch :: "string option \<Rightarrow> LogEntry \<Rightarrow> error + bool" where
  "matchesSearch searchQuery log =
     (case searchQuery of
        None \<Rightarrow> Inr True
      | Some q \<Rightarrow>
          if q = [] then Inr True
          else if String_includes (toLowerCase (message log)) (toLowerCase q) then Inr True
          else (case JSON_stringify (details log) of
                  Inl e \<Rightarrow> Inl e
                | Inr None \<Rightarrow> Inl TypeError
                | Inr (Some t) \<Rightarrow> Inr (String_includes (toLowerCase t) (toLowerCase q))))"

definition matchesLog ::
  "level option \<Rightarrow> category option \<Rightarrow> string option \<Rightarrow> LogEntry \<Rightarrow> error + bool" where
  "matchesLog lvl cat searchQuery log =
     (let matchesLevel = (lvl = None \<or> lvl = Some LDebug \<or> Some (level log) = lvl);
          matchesCategory = (cat = None \<or> Some (category log) = cat)
      in case matchesSearch searchQuery log of
           Inl e \<Rightarrow> Inl e
         | Inr ms \<Rightarrow> Inr (matchesLevel \<and> matchesCategory \<and> ms))"

definition getFilteredLogs ::
  "(string \<Rightarrow> int) \<Rightarrow> level option \<Rightarrow> category option \<Rightarrow> string option \<Rightarrow> LogStore
     \<Rightarrow> (error + LogEntry list) \<times> LogStore" where
  "getFilteredLogs getTime lvl cat searchQuery s =
     (case getLogs getTime s of
        (all_logs, s1) \<Rightarrow> (Array_filter (matchesLog lvl cat searchQuery) all_logs, s1))"


subsection \<open>A concrete clock\<close>

text \<open>
  The time value of a timestamp in the format of \<^verbatim>\<open>toISOString\<close>,
  \<^verbatim>\<open>YYYY-MM-DDTHH:mm:ss.sssZ\<close>, in milliseconds since the epoch. It instantiates \<open>getTime\<close>
  at concrete stores; the fields are read at their fixed positions.
\<close>

definition digitAt :: "string \<Rightarrow> nat \<Rightarrow> int" where
  "digitAt s i = (if i < length s then int (of_char (s ! i)) - 48 else 0)"

definition daysFromCivil :: "int \<Rightarrow> int \<Rightarrow> int \<Rightarrow> int" where
  "daysFromCivil y m d =
     (let y1 = (if m \<le> 2 then y - 1 else y);
          era = y1 div 400;
          yoe = y1 - era * 400;
          doy = (153 * (if m > 2 then m - 3 else m + 9) + 2) div 5 + d - 1;
          doe = yoe * 365 + yoe div 4 - yoe div 100 + doy
      in era * 146097 + doe - 719468)"

definition isoTime :: "string \<Rightarrow> int" where
  "isoTime s =
     (let y = digitAt s 0 * 1000 + digitAt s 1 * 100 + digitAt s 2 * 10 + digitAt s 3;
          m = digitAt s 5 * 10 + digitAt s 6;
          d = digitAt s 8 * 10 + digitAt s 9;
          hh = digitAt s 11 * 10 + digitAt s 12;
          mi = digitAt s 14 * 10 + digitAt s 15;
          ss = digitAt s 17 * 10 + digitAt s 18;
          ms = digitAt s 20 * 100 + digitAt s 21 * 10 + digitAt s 22
      in (((daysFromCivil y m d * 24 + hh) * 60 + mi) * 60 + ss) * 1000 + ms)"

text \<open>The fields of a store before \<^verbatim>\<open>_loadLogs\<close> runs, given the cookie of the browser.\<close>

definition initialStore :: "string option \<Rightarrow> LogStore" where
  "initialStore c = \<lparr>logs = [], showLogs = True, cookie = c, diagnostics = []\<rparr>"

subsection \<open>Loading the cookie\<close>

text \<open>
  \<^verbatim>\<open>_loadLogs\<close> stores the parsed value unchecked (\<^verbatim>\<open>this._logs.set(parsedLogs)\<close>). The
  state holds values of the declared type \<^verbatim>\<open>Record<string, LogEntry>\<close>: \<open>asLogs\<close> reads a
  parsed value of this type, with the fields of the interface \<^verbatim>\<open>LogEntry\<close> and no others.
  \<open>loadLogs\<close> returns what the call returns and the state after it; the state is \<open>None\<close>
  when the parsed value is of another type, the map of the store then being outside the
  type of the store.
\<close>

definition level_of_str :: "string \<Rightarrow> level option" where
  "level_of_str x =
     (if x = ''info'' then Some LInfo
      else if x = ''warning'' then Some LWarning
      else if x = ''error'' then Some LError
      else if x = ''debug'' then Some LDebug
      else None)"

definition category_of_str :: "string \<Rightarrow> category option" where
  "category_of_str x =
     (if x = ''system'' then Some CSystem
      else if x = ''provider'' then Some CProvider
      else if x = ''user'' then Some CUser
      else if x = ''error'' then Some CError
      else if x = ''api'' then Some CApi
      else if x = ''auth'' then Some CAuth
      else if x = ''database'' then Some CDatabase
      else if x = ''network'' then Some CNetwork
      else None)"

fun asString :: "jsval option \<Rightarrow> string option" where
  "asString (Some (JStr x)) = Some x"
| "asString v = None"

fun asOptString :: "jsval option \<Rightarrow> string option option" where
  "asOptString None = Some None"
| "asOptString (Some (JStr x)) = Some (Some x)"
| "asOptString v = None"

fun asOptNumber :: "jsval option \<Rightarrow> int option option" where
  "asOptNumber None = Some None"
| "asOptNumber (Some (JNum n)) = Some (Some n)"
| "asOptNumber v = None"

fun asDetails :: "jsval option \<Rightarrow> jsval" where
  "asDetails None = JUndefined"
| "asDetails (Some v) = v"

definition entryKeys :: "string list" where
  "entryKeys = [''id'', ''timestamp'', ''level'', ''message'', ''details'', ''category'',
                ''subCategory'', ''duration'', ''statusCode'']"

definition asLogEntry :: "jsval \<Rightarrow> LogEntry option" where
  "asLogEntry v =
     (case v of
        JObj ps \<Rightarrow>
          if list_all (\<lambda>k. k \<in> set entryKeys) (map fst ps) then
            Option.bind (asString (map_of ps ''id'')) (\<lambda>i.
            Option.bind (asString (map_of ps ''timestamp'')) (\<lambda>t.
            Option.bind (Option.bind (asString (map_of ps ''level'')) level_of_str) (\<lambda>l.
            Option.bind (asString (map_of ps ''message'')) (\<lambda>m.
            Option.bind (Option.bind (asString (map_of ps ''category'')) category_of_str) (\<lambda>c.
            Option.bind (asOptString (map_of ps ''subCategory'')) (\<lambda>sub.
            Option.bind (asOptNumber (map_of ps ''duration'')) (\<lambda>d.
            Option.bind (asOptNumber (map_of ps ''statusCode'')) (\<lambda>sc.
              Some \<lparr>entry_id = i, timestamp = t, level = l, message = m,
                    details = asDetails (map_of ps ''details''), category = c,
                    subCategory = sub, duration = d, statusCode = sc\<rparr>))))))))
          else None
      | _ \<Rightarrow> None)"

fun asEntries :: "(string \<times> jsval) list \<Rightarrow> (string \<times> LogEntry) list option" where
  "asEntries [] = Some []"
| "asEntries ((k, v) # ps) =
     (case asLogEntry v of
        None \<Rightarrow> None
      | Some e \<Rightarrow> map_option ((#) (k, e)) (asEntries ps))"

definition asLogs :: "jsval \<Rightarrow> (string \<times> LogEntry) list option" where
  "asLogs v = (case v of JObj ps \<Rightarrow> asEntries ps | _ \<Rightarrow> None)"

text \<open>
  \<^verbatim>\<open>_loadLogs\<close>: nothing is done for a cookie that is absent or empty; the \<^verbatim>\<open>catch\<close> around
  \<^verbatim>\<open>JSON.parse\<close> gives the error to \<^verbatim>\<open>logger.error\<close>.
\<close>

definition loadLogs :: "LogStore \<Rightarrow> (error + unit) \<times> LogStore option" where
  "loadLogs s =
     (case cookie s of
        None \<Rightarrow> (Inr (), Some s)
      | Some savedLogs \<Rightarrow>
          if savedLogs = [] then (Inr (), Some s)
          else
            (case JSON_parse savedLogs of
               Inl e \<Rightarrow>
                 (Inr (), Some (s\<lparr>diagnostics :=
                   diagnostics s @ [''Failed to parse logs from cookies:'']\<rparr>))
             | Inr parsedLogs \<Rightarrow>
                 (Inr (), map_option (\<lambda>m. s\<lparr>logs := m\<rparr>) (asLogs parsedLogs))))"

text \<open>The constructor: the field initialisers, then \<^verbatim>\<open>_loadLogs\<close>.\<close>

definition LogStore_new :: "string option \<Rightarrow> (error + unit) \<times> LogStore option" where
  "LogStore_new c = loadLogs (initialStore c)"

subsection \<open>Sequences of calls\<close>

text \<open>
  A caller that makes one \<^verbatim>\<open>addLog\<close> call after the other, each with its message, level,
  category and details and with what the call reads from its environment, and goes on
  when a call throws. \<open>inserted\<close> is the id and the entry that a call puts into the map.
\<close>

type_synonym call = "env \<times> string \<times> level \<times> category \<times> jsval"




subsection \<open>JSON text of the store\<close>




section \<open>Sorting\<close>

lemma mset_insert_cmp: "mset (insert_cmp cmp x ys) = add_mset x (mset ys)"
  by (induction ys) simp_all

lemma mset_Array_sort: "mset (Array_sort cmp xs) = mset xs"
  unfolding Array_sort_def by (induction xs) (simp_all add: mset_insert_cmp)





section \<open>Reading the store\<close>


lemma Array_filter_all:
  assumes "\<And>x. p x = Inr True"
  shows "Array_filter p xs = Inr xs"
  by (induction xs) (simp_all add: assms)

text \<open>
  C3: with the level filter \<^verbatim>\<open>'debug'\<close> and no category and no search query,
  \<^verbatim>\<open>getFilteredLogs\<close> returns what \<^verbatim>\<open>getLogs\<close> returns, which is every resident entry,
  whatever the level of the entry.
\<close>

theorem getFilteredLogs_debug_matches_all:
  "getFilteredLogs getTime (Some LDebug) None None s = (Inr (fst (getLogs getTime s)), s) \<and>
   mset (fst (getLogs getTime s)) = mset (Object_values (logs s))"
proof -
  have "matchesLog (Some LDebug) None None x = Inr True" for x
    by (simp add: matchesLog_def matchesSearch_def)
  then have "Array_filter (matchesLog (Some LDebug) None None) xs = Inr xs" for xs
    by (rule Array_filter_all)
  then show ?thesis
    by (simp add: getFilteredLogs_def getLogs_def mset_Array_sort)
qed

text \<open>
  C10: \<^verbatim>\<open>getLogs\<close> and \<^verbatim>\<open>getFilteredLogs\<close> leave the resident map, the cookie and the
  \<^verbatim>\<open>showLogs\<close> flag as they were, for every state and all arguments, also when the filter
  throws.
\<close>

theorem reads_leave_store_unchanged:
  "logs (snd (getLogs getTime s)) = logs s \<and>
   cookie (snd (getLogs getTime s)) = cookie s \<and>
   showLogs (snd (getLogs getTime s)) = showLogs s \<and>
   logs (snd (getFilteredLogs getTime lvl cat q s)) = logs s \<and>
   cookie (snd (getFilteredLogs getTime lvl cat q s)) = cookie s \<and>
   showLogs (snd (getFilteredLogs getTime lvl cat q s)) = showLogs s"
  by (simp add: getFilteredLogs_def getLogs_def)


section \<open>The helpers\<close>

lemma map_of_setKey: "map_of (setKey ps k v) = (map_of ps)(k \<mapsto> v)"
  by (induction ps) (auto simp: fun_eq_iff)

lemma addLog_logs:
  "logs (snd (addLog getTime en msg lvl cat det s)) =
   logs (trimLogs getTime
     (s\<lparr>logs := setKey (logs s) (generateId en) (newEntry en msg lvl cat det)\<rparr>))"
  by (simp add: addLog_def saveLogs_def newEntry_def Let_def split: sum.splits prod.splits)

lemma apiDetails_props:
  "map_of (ownProps (apiDetails ts endpoint method dur sc det)) =
   (map_of (ownProps det))(''endpoint'' \<mapsto> JStr endpoint, ''method'' \<mapsto> JStr method,
      ''duration'' \<mapsto> JNum dur, ''statusCode'' \<mapsto> JNum sc, ''timestamp'' \<mapsto> JStr ts)"
  by (simp add: apiDetails_def objectLiteral_def map_of_setKey)

lemma dbDetails_props:
  "map_of (ownProps (dbDetails ts operation success dur det)) =
   (map_of (ownProps det))(''operation'' \<mapsto> JStr operation, ''success'' \<mapsto> JBool success,
      ''duration'' \<mapsto> JNum dur, ''timestamp'' \<mapsto> JStr ts)"
  by (simp add: dbDetails_def objectLiteral_def map_of_setKey)

text \<open>
  C2: \<^verbatim>\<open>logAPIRequest(endpoint, method, durationMs, statusCode, details?)\<close> calls \<^verbatim>\<open>addLog\<close>
  with the message \<^verbatim>\<open>"{method} {endpoint} - {statusCode} ({durationMs}ms)"\<close>, the level
  \<^verbatim>\<open>error\<close> from 400, \<^verbatim>\<open>warning\<close> from 300 and \<^verbatim>\<open>info\<close> below, and the category \<^verbatim>\<open>api\<close>. The
  entry put into the map has this message, level and category, and its details are the
  properties of the caller's details with \<^verbatim>\<open>endpoint\<close>, \<^verbatim>\<open>method\<close>, \<^verbatim>\<open>duration\<close>,
  \<^verbatim>\<open>statusCode\<close> and \<^verbatim>\<open>timestamp\<close> set. For \<^verbatim>\<open>logAPIRequest("/users", "GET", 120, 404)\<close> on
  a new store the one entry has the message \<^verbatim>\<open>GET /users - 404 (120ms)\<close>, level \<^verbatim>\<open>error\<close>,
  category \<^verbatim>\<open>api\<close> and \<^verbatim>\<open>details.statusCode = 404\<close>.
\<close>

theorem logAPIRequest_entry:
  "logAPIRequest getTime ts en endpoint method dur sc det s =
     addLog getTime en
       (method @ '' '' @ endpoint @ '' - '' @ Number_toString sc @ '' ('' @ Number_toString dur @ ''ms)'')
       (if sc \<ge> 400 then LError else if sc \<ge> 300 then LWarning else LInfo) CApi
       (apiDetails ts endpoint method dur sc det) s \<and>
   logs (snd (logAPIRequest getTime ts en endpoint method dur sc det s)) =
     logs (trimLogs getTime (s\<lparr>logs := setKey (logs s) (generateId en)
       (newEntry en (apiMessage endpoint method dur sc) (apiLevel sc) CApi
          (apiDetails ts endpoint method dur sc det))\<rparr>)) \<and>
   message (newEntry en (apiMessage endpoint method dur sc) (apiLevel sc) CApi
       (apiDetails ts endpoint method dur sc det)) =
     method @ '' '' @ endpoint @ '' - '' @ Number_toString sc @ '' ('' @ Number_toString dur @ ''ms)'' \<and>
   level (newEntry en (apiMessage endpoint method dur sc) (apiLevel sc) CApi
       (apiDetails ts endpoint method dur sc det)) =
     (if sc \<ge> 400 then LError else if sc \<ge> 300 then LWarning else LInfo) \<and>
   category (newEntry en (apiMessage endpoint method dur sc) (apiLevel sc) CApi
       (apiDetails ts endpoint method dur sc det)) = CApi \<and>
   map_of (ownProps (details (newEntry en (apiMessage endpoint method dur sc) (apiLevel sc) CApi
       (apiDetails ts endpoint method dur sc det)))) =
     (map_of (ownProps det))(''endpoint'' \<mapsto> JStr endpoint, ''method'' \<mapsto> JStr method,
        ''duration'' \<mapsto> JNum dur, ''statusCode'' \<mapsto> JNum sc, ''timestamp'' \<mapsto> JStr ts) \<and>
   map (\<lambda>(k, e). (message e, level e, category e, map_of (ownProps (details e)) ''statusCode''))
     (logs (snd (logAPIRequest isoTime ''2023-11-14T22:13:20.001Z''
        \<lparr>dateNow = 1700000000001, random36 = ''k3j9x2m1q'', isoNow = ''2023-11-14T22:13:20.001Z''\<rparr>
        ''/users'' ''GET'' 120 404 JUndefined (initialStore None)))) =
     [(''GET /users - 404 (120ms)'', LError, CApi, Some (JNum 404))]"
proof -
  have call: "logAPIRequest getTime ts en endpoint method dur sc det s =
     addLog getTime en
       (method @ '' '' @ endpoint @ '' - '' @ Number_toString sc @ '' ('' @ Number_toString dur @ ''ms)'')
       (if sc \<ge> 400 then LError else if sc \<ge> 300 then LWarning else LInfo) CApi
       (apiDetails ts endpoint method dur sc det) s"
    by (simp add: logAPIRequest_def apiMessage_def apiLevel_def)
  have stored: "logs (snd (logAPIRequest getTime ts en endpoint method dur sc det s)) =
     logs (trimLogs getTime (s\<lparr>logs := setKey (logs s) (generateId en)
       (newEntry en (apiMessage endpoint method dur sc) (apiLevel sc) CApi
          (apiDetails ts endpoint method dur sc det))\<rparr>))"
    by (simp add: logAPIRequest_def addLog_logs)
  have fields: "message (newEntry en (apiMessage endpoint method dur sc) (apiLevel sc) CApi
       (apiDetails ts endpoint method dur sc det)) =
     method @ '' '' @ endpoint @ '' - '' @ Number_toString sc @ '' ('' @ Number_toString dur @ ''ms)''"
    "level (newEntry en (apiMessage endpoint method dur sc) (apiLevel sc) CApi
       (apiDetails ts endpoint method dur sc det)) =
     (if sc \<ge> 400 then LError else if sc \<ge> 300 then LWarning else LInfo)"
    "category (newEntry en (apiMessage endpoint method dur sc) (apiLevel sc) CApi
       (apiDetails ts endpoint method dur sc det)) = CApi"
    by (simp_all add: newEntry_def apiMessage_def apiLevel_def)
  have det: "map_of (ownProps (details (newEntry en (apiMessage endpoint method dur sc) (apiLevel sc) CApi
       (apiDetails ts endpoint method dur sc det)))) =
     (map_of (ownProps det))(''endpoint'' \<mapsto> JStr endpoint, ''method'' \<mapsto> JStr method,
        ''duration'' \<mapsto> JNum dur, ''statusCode'' \<mapsto> JNum sc, ''timestamp'' \<mapsto> JStr ts)"
    by (simp add: newEntry_def apiDetails_props)
  have example: "map (\<lambda>(k, e). (message e, level e, category e, map_of (ownProps (details e)) ''statusCode''))
     (logs (snd (logAPIRequest isoTime ''2023-11-14T22:13:20.001Z''
        \<lparr>dateNow = 1700000000001, random36 = ''k3j9x2m1q'', isoNow = ''2023-11-14T22:13:20.001Z''\<rparr>
        ''/users'' ''GET'' 120 404 JUndefined (initialStore None)))) =
     [(''GET /users - 404 (120ms)'', LError, CApi, Some (JNum 404))]"
    by code_simp
  from call stored fields det example show ?thesis
    by (intro conjI)
qed

text \<open>
  C9, as the code has it: \<^verbatim>\<open>logAPIRequest\<close> records the duration and the status code in
  the details of the entry (\<^verbatim>\<open>details.duration\<close>, \<^verbatim>\<open>details.statusCode\<close>) and leaves the
  top-level fields \<^verbatim>\<open>duration\<close> and \<^verbatim>\<open>statusCode\<close> of the entry unset; \<^verbatim>\<open>logDatabase\<close> records
  the duration in \<^verbatim>\<open>details.duration\<close> and leaves the top-level \<^verbatim>\<open>duration\<close> unset.
\<close>

theorem duration_statusCode_in_details:
  "logs (snd (logAPIRequest getTime ts en endpoint method dur sc det s)) =
     logs (trimLogs getTime (s\<lparr>logs := setKey (logs s) (generateId en)
       (newEntry en (apiMessage endpoint method dur sc) (apiLevel sc) CApi
          (apiDetails ts endpoint method dur sc det))\<rparr>)) \<and>
   duration (newEntry en (apiMessage endpoint method dur sc) (apiLevel sc) CApi
       (apiDetails ts endpoint method dur sc det)) = None \<and>
   statusCode (newEntry en (apiMessage endpoint method dur sc) (apiLevel sc) CApi
       (apiDetails ts endpoint method dur sc det)) = None \<and>
   map_of (ownProps (details (newEntry en (apiMessage endpoint method dur sc) (apiLevel sc) CApi
       (apiDetails ts endpoint method dur sc det)))) ''duration'' = Some (JNum dur) \<and>
   map_of (ownProps (details (newEntry en (apiMessage endpoint method dur sc) (apiLevel sc) CApi
       (apiDetails ts endpoint method dur sc det)))) ''statusCode'' = Some (JNum sc) \<and>
   logs (snd (logDatabase getTime ts en operation success dur det s)) =
     logs (trimLogs getTime (s\<lparr>logs := setKey (logs s) (generateId en)
       (newEntry en (dbMessage operation success dur) (if success then LInfo else LError) CDatabase
          (dbDetails ts operation success dur det))\<rparr>)) \<and>
   duration (newEntry en (dbMessage operation success dur) (if success then LInfo else LError)
       CDatabase (dbDetails ts operation success dur det)) = None \<and>
   map_of (ownProps (details (newEntry en (dbMessage operation success dur)
       (if success then LInfo else LError) CDatabase (dbDetails ts operation success dur det))))
     ''duration'' = Some (JNum dur)"
  by (simp add: logAPIRequest_def logDatabase_def addLog_logs newEntry_def apiDetails_props
      dbDetails_props)

text \<open>
  C9, as stated, fails: after \<^verbatim>\<open>logAPIRequest("/users", "GET", 120, 404)\<close> on a new store
  the one resident entry has no top-level \<^verbatim>\<open>duration\<close> and no top-level \<^verbatim>\<open>statusCode\<close>.
\<close>

theorem logAPIRequest_top_level_fields_unset:
  "map duration (Object_values (logs (snd (logAPIRequest isoTime ''2023-11-14T22:13:20.001Z''
      \<lparr>dateNow = 1700000000001, random36 = ''k3j9x2m1q'', isoNow = ''2023-11-14T22:13:20.001Z''\<rparr>
      ''/users'' ''GET'' 120 404 JUndefined (initialStore None))))) = [None] \<and>
   map statusCode (Object_values (logs (snd (logAPIRequest isoTime ''2023-11-14T22:13:20.001Z''
      \<lparr>dateNow = 1700000000001, random36 = ''k3j9x2m1q'', isoNow = ''2023-11-14T22:13:20.001Z''\<rparr>
      ''/users'' ''GET'' 120 404 JUndefined (initialStore None))))) = [None]"
  by code_simp

section \<open>Payloads that cannot be serialised\<close>

text \<open>
  C4 fails on the code: \<^verbatim>\<open>addLog("boom", "info", "system", c)\<close> with the circular object
  \<^verbatim>\<open>c\<close> (\<^verbatim>\<open>c.self = c\<close>) throws the TypeError of \<^verbatim>\<open>JSON.stringify\<close> out of \<^verbatim>\<open>_saveLogs\<close>. The
  entry is in the map by then, and the cookie is not written.
\<close>

theorem addLog_throws_on_circular_details:
  "fst (addLog isoTime
      \<lparr>dateNow = 1700000000001, random36 = ''k3j9x2m1q'', isoNow = ''2023-11-14T22:13:20.001Z''\<rparr>
      ''boom'' LInfo CSystem JCircular (initialStore None)) = Inl TypeError \<and>
   map fst (logs (snd (addLog isoTime
      \<lparr>dateNow = 1700000000001, random36 = ''k3j9x2m1q'', isoNow = ''2023-11-14T22:13:20.001Z''\<rparr>
      ''boom'' LInfo CSystem JCircular (initialStore None)))) = [''1700000000001-k3j9x2m1q''] \<and>
   cookie (snd (addLog isoTime
      \<lparr>dateNow = 1700000000001, random36 = ''k3j9x2m1q'', isoNow = ''2023-11-14T22:13:20.001Z''\<rparr>
      ''boom'' LInfo CSystem JCircular (initialStore None))) = None"
  by code_simp

text \<open>
  C5 fails on the code: after \<^verbatim>\<open>logSystem("boot")\<close>, which leaves \<^verbatim>\<open>details\<close> undefined,
  \<^verbatim>\<open>getFilteredLogs("info", "system", "users")\<close> throws a TypeError
  (\<^verbatim>\<open>JSON.stringify(undefined).toLowerCase()\<close>), where no entry matches and the empty
  sequence is the result that C5 describes.
\<close>

theorem getFilteredLogs_throws_on_absent_details:
  "fst (getFilteredLogs isoTime (Some LInfo) (Some CSystem) (Some ''users'')
     (snd (logSystem isoTime
        \<lparr>dateNow = 1700000000001, random36 = ''k3j9x2m1q'', isoNow = ''2023-11-14T22:13:20.001Z''\<rparr>
        ''boot'' JUndefined (initialStore None)))) = Inl TypeError"
  by code_simp

lemma String_includes_empty: "String_includes x []"
  by (cases x) simp_all

lemma Array_filter_pred:
  assumes "\<And>x. x \<in> set xs \<Longrightarrow> p x = Inr (q x)"
  shows "Array_filter p xs = Inr (filter q xs)"
  using assms by (induction xs) simp_all

lemma set_getLogs: "set (fst (getLogs getTime s)) = set (Object_values (logs s))"
  using mset_Array_sort [of "byTimestampDesc getTime" "Object_values (logs s)"]
  by (metis fst_conv getLogs_def set_mset_mset)

text \<open>
  For a store in which \<^verbatim>\<open>JSON.stringify\<close> turns the details of every resident entry into a
  text, the filter with a level other than \<^verbatim>\<open>debug\<close>, a category and a search string returns
  the entries of \<^verbatim>\<open>getLogs()\<close> that have this level and this category and whose message or
  serialised details contain the search string, letter case ignored.
\<close>

lemma getFilteredLogs_conjunction:
  assumes ser: "\<And>e. e \<in> set (Object_values (logs s)) \<Longrightarrow>
      \<exists>t. JSON_stringify (details e) = Inr (Some t)"
    and "L \<noteq> LDebug"
  shows "fst (getFilteredLogs getTime (Some L) (Some C) (Some S) s) =
    Inr (filter (\<lambda>e. level e = L \<and> category e = C \<and>
          (String_includes (toLowerCase (message e)) (toLowerCase S) \<or>
           (\<exists>t. JSON_stringify (details e) = Inr (Some t) \<and>
                String_includes (toLowerCase t) (toLowerCase S))))
      (fst (getLogs getTime s)))"
proof -
  have "matchesLog (Some L) (Some C) (Some S) e =
      Inr (level e = L \<and> category e = C \<and>
          (String_includes (toLowerCase (message e)) (toLowerCase S) \<or>
           (\<exists>t. JSON_stringify (details e) = Inr (Some t) \<and>
                String_includes (toLowerCase t) (toLowerCase S))))"
    if "e \<in> set (fst (getLogs getTime s))" for e
  proof -
    from that have "e \<in> set (Object_values (logs s))"
      by (simp add: set_getLogs)
    from ser [OF this] obtain t where t: "JSON_stringify (details e) = Inr (Some t)"
      by blast
    show ?thesis
      using assms(2)
      by (auto simp: matchesLog_def matchesSearch_def t toLowerCase_def String_includes_empty)
  qed
  then have "Array_filter (matchesLog (Some L) (Some C) (Some S)) (fst (getLogs getTime s)) =
    Inr (filter (\<lambda>e. level e = L \<and> category e = C \<and>
          (String_includes (toLowerCase (message e)) (toLowerCase S) \<or>
           (\<exists>t. JSON_stringify (details e) = Inr (Some t) \<and>
                String_includes (toLowerCase t) (toLowerCase S))))
      (fst (getLogs getTime s)))"
    by (rule Array_filter_pred)
  then show ?thesis
    by (simp add: getFilteredLogs_def case_prod_unfold)
qed

section \<open>Construction\<close>

text \<open>
  C7: constructing the store returns and does not throw, whatever the cookie holds. When
  the cookie is absent or its text does not parse, the map of the new store is empty; when
  \<^verbatim>\<open>JSON.parse\<close> throws, the failure goes to \<^verbatim>\<open>logger.error\<close> and the constructor returns.
  A text that parses to a map of entries becomes the map of the store.
\<close>

theorem LogStore_new_recovers:
  "fst (LogStore_new c) = Inr () \<and>
   (c = None \<or> (\<exists>t e. c = Some t \<and> JSON_parse t = Inl e) \<longrightarrow>
      (\<exists>s. snd (LogStore_new c) = Some s \<and> logs s = [])) \<and>
   (\<forall>t e. c = Some t \<and> t \<noteq> [] \<and> JSON_parse t = Inl e \<longrightarrow>
      LogStore_new c = (Inr (),
        Some \<lparr>logs = [], showLogs = True, cookie = c,
         diagnostics = [''Failed to parse logs from cookies:'']\<rparr>)) \<and>
   (\<forall>t v m. c = Some t \<and> t \<noteq> [] \<and> JSON_parse t = Inr v \<and> asLogs v = Some m \<longrightarrow>
      LogStore_new c = (Inr (),
        Some \<lparr>logs = m, showLogs = True, cookie = c, diagnostics = []\<rparr>))"
  by (auto simp: LogStore_new_def loadLogs_def initialStore_def
      split: option.splits sum.splits if_splits)

theorem LogStore_new_recovers_witness:
  "JSON_parse ''{oops'' = Inl SyntaxError \<and>
   LogStore_new (Some ''{oops'') = (Inr (),
     Some \<lparr>logs = [], showLogs = True, cookie = Some ''{oops'',
      diagnostics = [''Failed to parse logs from cookies:'']\<rparr>) \<and>
   (\<exists>s. snd (LogStore_new None) = Some s \<and> logs s = []) \<and>
   JSON_parse ''{}'' = Inr (JObj []) \<and> asLogs (JObj []) = Some [] \<and>
   LogStore_new (Some ''{}'') = (Inr (),
     Some \<lparr>logs = [], showLogs = True, cookie = Some ''{}'', diagnostics = []\<rparr>)"
proof -
  have p1: "JSON_parse ''{oops'' = Inl SyntaxError"
    by code_simp
  have p2: "JSON_parse ''{}'' = Inr (JObj [])"
    by code_simp
  have p3: "asLogs (JObj []) = Some []"
    by (simp add: asLogs_def)
  from p1 p2 p3 LogStore_new_recovers [of "Some ''{oops''"] LogStore_new_recovers [of None]
    LogStore_new_recovers [of "Some ''{}''"]
  show ?thesis
    by simp
qed

section \<open>The capacity bound\<close>


























section \<open>The round trip through the cookie\<close>

subsection \<open>Strings and numbers\<close>
























subsection \<open>Values\<close>






declare parse_value.simps [simp del] parse_elements.simps [simp del] parse_members.simps [simp del]




subsection \<open>The map of the store\<close>















end
